theory Spec2Isabelle
  imports Complex_Main "HOL-Library.Word"
begin

unbundle bit_operations_syntax

section \<open>The MCP9600 thermocouple amplifier driver\<close>

text \<open>
  A shallow embedding of \<^verbatim>\<open>adafruit_mcp9600.py\<close>. Bytes are \<open>8 word\<close>, the
  3-byte scratch buffer \<^verbatim>\<open>bytearray(3)\<close> is a list of bytes, Python's unbounded
  integers are \<open>int\<close>, and the one exception the driver raises is a value of a sum
  type. The driver object and the bus are passed explicitly: every operation takes the
  state before the call and returns the state after it.

  The temperatures are Python floats. Every float the driver computes is an integer
  below \<open>2 ^ 16\<close> times \<open>0.0625 = 2 powr -4\<close>, with \<open>4096\<close> possibly subtracted: all of
  these are multiples of \<open>2 powr -4\<close> of magnitude below \<open>2 ^ 13\<close>, 17 significant bits
  at most, which binary32 and binary64 represent exactly, so the arithmetic on \<open>real\<close>
  below is the arithmetic of the code.
\<close>

subsection \<open>Bytes, errors and the bus collaborator\<close>

type_synonym byte = "8 word"

text \<open>
  \<open>Exception\<close> carries the message of the driver's own \<^verbatim>\<open>raise Exception(...)\<close>.
  \<open>ValueError\<close> is what \<^verbatim>\<open>tuple.index\<close> raises on a missing element and what a
  \<^verbatim>\<open>bytearray\<close> item assignment raises on a value outside \<open>range(0, 256)\<close>;
  \<open>IndexError\<close> is an item assignment out of range; \<open>StructError\<close> is
  \<^verbatim>\<open>struct.error\<close>, raised by \<^verbatim>\<open>unpack\<close> on a buffer of the wrong size.
\<close>

datatype error = Exception string | ValueError | IndexError | StructError

text \<open>
  One entry of the bus log per transaction requested of the bus device: a plain write
  with the bytes sent, or a combined write-then-read with the bytes sent and the bytes
  received.
\<close>

datatype transaction = Write "byte list" | WriteThenRead "byte list" "byte list"

text \<open>
  The bus with the chip on it. \<open>chip\<close> is the hardware's answer in a read phase: given
  the transactions so far and the bytes sent in the write phase of the current
  transaction, the byte it returns at each position of the read. \<open>probes\<close> lists the
  addresses probed on the bus when a device was bound, and \<open>traffic\<close> is the log of the
  write and write-then-read transactions issued, both oldest first.
\<close>

record I2C =
  chip :: "transaction list \<Rightarrow> byte list \<Rightarrow> nat \<Rightarrow> byte"
  probes :: "nat list"
  traffic :: "transaction list"

text \<open>
  The bus collaborator is \<^verbatim>\<open>adafruit_bus_device.i2c_device.I2CDevice\<close>, an external
  library that is not part of the repository. The scoped acquisition
  (\<^verbatim>\<open>with ... as\<close>) locks and unlocks the bus and puts nothing on it. An operation that
  the collaborator aborts with an I/O error of its own (no device answering the probe,
  no acknowledge, a bus fault) is raised outside the driver and is not modelled: the
  three operations below are the runs in which the collaborator returns.
\<close>

text \<open>
  Modelled from the spec: binding the driver to a bus and an address,
  \<^verbatim>\<open>I2CDevice(i2c, address)\<close>, which is missing from the sources. The library probes
  the address on the bus when the device is bound, before it returns the handle; the
  repository's example catches the \<^verbatim>\<open>ValueError\<close> of a probe that nothing answers and
  prints that the sensor was not detected. The probe is a bus activity of its own, not
  a write or write-then-read of the contract, and addresses no register. The result is
  the handle (the address bound) and the bus after the probe.
\<close>

definition I2CDevice :: "I2C \<Rightarrow> nat \<Rightarrow> nat \<times> I2C" where
  "I2CDevice i2c device_address =
     (device_address, i2c\<lparr>probes := probes i2c @ [device_address]\<rparr>)"

text \<open>
  Modelled from the spec: the collaborator's plain write, \<^verbatim>\<open>write(buf, end=e)\<close>, which
  is missing from the sources. It sends the bytes \<^verbatim>\<open>buf[0:e]\<close> in one transaction.
\<close>

definition write_i2c :: "I2C \<Rightarrow> byte list \<Rightarrow> nat \<Rightarrow> I2C" where
  "write_i2c i2c buffer end' = i2c\<lparr>traffic := traffic i2c @ [Write (take end' buffer)]\<rparr>"

text \<open>
  Modelled from the spec: the collaborator's combined transaction,
  \<^verbatim>\<open>write_then_readinto(out, in, out_end=e, in_start=s)\<close>, which is missing from the
  sources. It sends \<^verbatim>\<open>out[0:e]\<close> and then reads \<^verbatim>\<open>len(in) - s\<close> bytes into
  \<^verbatim>\<open>in[s:]\<close>: the read runs to the end of the buffer when no \<^verbatim>\<open>in_end\<close> is given. The
  write phase is complete before the read phase starts, so when both buffers are the
  same object, as in the driver, the bytes sent are those of the buffer before the read.
  The result is the input buffer after the read, and the bus after the transaction.
\<close>

definition write_then_readinto ::
  "I2C \<Rightarrow> byte list \<Rightarrow> byte list \<Rightarrow> nat \<Rightarrow> nat \<Rightarrow> byte list \<times> I2C" where
  "write_then_readinto i2c out_buffer in_buffer out_end in_start =
     (let sent = take out_end out_buffer;
          received = map (chip i2c (traffic i2c) sent) [0..<length in_buffer - in_start]
      in (take in_start in_buffer @ received,
          i2c\<lparr>traffic := traffic i2c @ [WriteThenRead sent received]\<rparr>))"

subsection \<open>Python primitives the driver uses\<close>

text \<open>\<^verbatim>\<open>seq.index(x)\<close>: the first position of \<open>x\<close>, \<open>ValueError\<close> when absent.\<close>

fun index :: "'a list \<Rightarrow> 'a \<Rightarrow> error + nat" where
  "index [] x = Inl ValueError"
| "index (y # ys) x =
     (if y = x then Inr 0
      else case index ys x of Inl e \<Rightarrow> Inl e | Inr i \<Rightarrow> Inr (Suc i))"

text \<open>
  \<^verbatim>\<open>buf[i] = v\<close> on a bytearray, for an integer \<open>v\<close> and a position \<open>i \<ge> 0\<close>. The
  value is checked before the position.
\<close>

definition setitem :: "byte list \<Rightarrow> nat \<Rightarrow> int \<Rightarrow> error + byte list" where
  "setitem b i v =
     (if v < 0 \<or> 255 < v then Inl ValueError
      else if length b \<le> i then Inl IndexError
      else Inr (b[i := word_of_int v]))"

text \<open>
  \<^verbatim>\<open>unpack(">xH", data)[0]\<close>: the buffer must hold exactly three bytes; the first is
  padding, the other two are an unsigned 16-bit integer, high byte first.
\<close>

definition unpack_xH :: "byte list \<Rightarrow> error + nat" where
  "unpack_xH data =
     (case data of
        [pad, hi, lo] \<Rightarrow> Inr (unat hi * 256 + unat lo)
      | _ \<Rightarrow> Inl StructError)"

subsection \<open>Constants\<close>

definition DEFAULT_ADDRESS :: nat where "DEFAULT_ADDRESS = 0x67"

definition REGISTER_HOT_JUNCTION :: byte where "REGISTER_HOT_JUNCTION = 0x00"
definition REGISTER_DELTA_TEMP :: byte where "REGISTER_DELTA_TEMP = 0x01"
definition REGISTER_COLD_JUNCTION :: byte where "REGISTER_COLD_JUNCTION = 0x02"
definition REGISTER_THERM_CFG :: byte where "REGISTER_THERM_CFG = 0x05"
definition REGISTER_VERSION :: byte where "REGISTER_VERSION = 0x20"

definition types :: "string list" where
  "types = [''K'', ''J'', ''T'', ''N'', ''S'', ''E'', ''B'', ''R'']"

subsection \<open>The driver object and its constructor\<close>

text \<open>
  The fields of \<^verbatim>\<open>MCP9600\<close>: the scratch buffer, the address the bus device is bound
  to, and the thermocouple type.
\<close>

record MCP9600 =
  buf :: "byte list"
  i2c_device :: nat
  type :: string

text \<open>
  \<^verbatim>\<open>MCP9600.__init__(self, i2c, address, tctype, tcfilter)\<close>. The result is the
  exception raised or the constructed object, together with the bus after the call. The
  bus device is bound, and the address probed, before the thermocouple type is checked.
\<close>

definition MCP9600_init :: "I2C \<Rightarrow> nat \<Rightarrow> string \<Rightarrow> int \<Rightarrow> (error + MCP9600) \<times> I2C" where
  "MCP9600_init i2c address tctype tcfilter =
     (let buf0 = replicate 3 0;
          (device, i2c) = I2CDevice i2c address;
          self = \<lparr>buf = buf0, i2c_device = device, type = tctype\<rparr> in
      if tctype \<notin> set types
      then (Inl (Exception (''invalid thermocouple type ('' @ tctype @ '')'')), i2c)
      else
        let tcfilter = min 7 (max 0 tcfilter) in
        case index types tctype of
          Inl e \<Rightarrow> (Inl e, i2c)
        | Inr ttype \<Rightarrow>
            (case setitem (buf self) 0 (uint REGISTER_THERM_CFG) of
               Inl e \<Rightarrow> (Inl e, i2c)
             | Inr b0 \<Rightarrow>
                 (case setitem b0 1 (tcfilter OR push_bit 4 (int ttype)) of
                    Inl e \<Rightarrow> (Inl e, i2c)
                  | Inr b1 \<Rightarrow> (Inr (self\<lparr>buf := b1\<rparr>), write_i2c i2c b1 2))))"

subsection \<open>The register read primitive and the queries\<close>

text \<open>
  \<^verbatim>\<open>_read_register(self, reg, count)\<close>: returns the buffer (the \<^verbatim>\<open>data\<close> of the
  callers, which is \<^verbatim>\<open>self.buf\<close> itself), the object and the bus after the call.
  The register address is a byte and the count a natural number, as at every call in
  the driver.
\<close>

definition read_register :: "MCP9600 \<Rightarrow> I2C \<Rightarrow> byte \<Rightarrow> nat \<Rightarrow> (error + byte list) \<times> MCP9600 \<times> I2C" where
  "read_register self i2c reg count =
     (case setitem (buf self) 0 (uint reg) of
        Inl e \<Rightarrow> (Inl e, self, i2c)
      | Inr b \<Rightarrow>
          (let (b', i2c') = write_then_readinto i2c b b count 1
           in (Inr b', self\<lparr>buf := b'\<rparr>, i2c')))"

definition version :: "MCP9600 \<Rightarrow> I2C \<Rightarrow> (error + nat) \<times> MCP9600 \<times> I2C" where
  "version self i2c =
     (case read_register self i2c REGISTER_VERSION 2 of
        (Inl e, self', i2c') \<Rightarrow> (Inl e, self', i2c')
      | (Inr data, self', i2c') \<Rightarrow> (unpack_xH data, self', i2c'))"

definition ambient_temperature :: "MCP9600 \<Rightarrow> I2C \<Rightarrow> (error + real) \<times> MCP9600 \<times> I2C" where
  "ambient_temperature self i2c =
     (case read_register self i2c REGISTER_COLD_JUNCTION 2 of
        (Inl e, self', i2c') \<Rightarrow> (Inl e, self', i2c')
      | (Inr data, self', i2c') \<Rightarrow>
          (case unpack_xH data of
             Inl e \<Rightarrow> (Inl e, self', i2c')
           | Inr raw \<Rightarrow>
               (let value = real raw * 0.0625 in
                (Inr (if (data ! 1) AND 0x80 \<noteq> 0 then value - 4096 else value),
                 self', i2c'))))"

definition temperature :: "MCP9600 \<Rightarrow> I2C \<Rightarrow> (error + real) \<times> MCP9600 \<times> I2C" where
  "temperature self i2c =
     (case read_register self i2c REGISTER_HOT_JUNCTION 2 of
        (Inl e, self', i2c') \<Rightarrow> (Inl e, self', i2c')
      | (Inr data, self', i2c') \<Rightarrow>
          (case unpack_xH data of
             Inl e \<Rightarrow> (Inl e, self', i2c')
           | Inr raw \<Rightarrow>
               (let value = real raw * 0.0625 in
                (Inr (if (data ! 1) AND 0x80 \<noteq> 0 then value - 4096 else value),
                 self', i2c'))))"

definition delta_temperature :: "MCP9600 \<Rightarrow> I2C \<Rightarrow> (error + real) \<times> MCP9600 \<times> I2C" where
  "delta_temperature self i2c =
     (case read_register self i2c REGISTER_DELTA_TEMP 2 of
        (Inl e, self', i2c') \<Rightarrow> (Inl e, self', i2c')
      | (Inr data, self', i2c') \<Rightarrow>
          (case unpack_xH data of
             Inl e \<Rightarrow> (Inl e, self', i2c')
           | Inr raw \<Rightarrow>
               (let value = real raw * 0.0625 in
                (Inr (if (data ! 1) AND 0x80 \<noteq> 0 then value - 4096 else value),
                 self', i2c'))))"

subsection \<open>Clients and test benches\<close>

text \<open>
  A client of the driver, as in \<^verbatim>\<open>examples/mcp9600_simpletest.py\<close>: a finite sequence
  of property reads on one driver object. A read that raises ends the sequence with its
  exception; otherwise the values come back in order.
\<close>

datatype query = Version | AmbientTemperature | Temperature | DeltaTemperature

datatype reading = IntValue nat | FloatValue real

definition get :: "query \<Rightarrow> MCP9600 \<Rightarrow> I2C \<Rightarrow> (error + reading) \<times> MCP9600 \<times> I2C" where
  "get q self i2c =
     (case q of
        Version \<Rightarrow> (case version self i2c of (r, s) \<Rightarrow> (map_sum id IntValue r, s))
      | AmbientTemperature \<Rightarrow>
          (case ambient_temperature self i2c of (r, s) \<Rightarrow> (map_sum id FloatValue r, s))
      | Temperature \<Rightarrow> (case temperature self i2c of (r, s) \<Rightarrow> (map_sum id FloatValue r, s))
      | DeltaTemperature \<Rightarrow>
          (case delta_temperature self i2c of (r, s) \<Rightarrow> (map_sum id FloatValue r, s)))"

fun gets :: "query list \<Rightarrow> MCP9600 \<Rightarrow> I2C \<Rightarrow> (error + reading list) \<times> MCP9600 \<times> I2C" where
  "gets [] self i2c = (Inr [], self, i2c)"
| "gets (q # qs) self i2c =
     (case get q self i2c of
        (Inl e, self', i2c') \<Rightarrow> (Inl e, self', i2c')
      | (Inr v, self', i2c') \<Rightarrow>
          (case gets qs self' i2c' of
             (Inl e, s) \<Rightarrow> (Inl e, s)
           | (Inr vs, s) \<Rightarrow> (Inr (v # vs), s)))"

text \<open>
  What a transaction is, for counting: a combined write-then-read or a plain write, and
  the register it addresses (the first byte of its write phase).
\<close>

fun combined :: "transaction \<Rightarrow> bool" where
  "combined (Write bs) = False"
| "combined (WriteThenRead bs rs) = True"

fun addresses :: "byte \<Rightarrow> transaction \<Rightarrow> bool" where
  "addresses r (Write bs) = (case bs of [] \<Rightarrow> False | a # _ \<Rightarrow> a = r)"
| "addresses r (WriteThenRead bs rs) = (case bs of [] \<Rightarrow> False | a # _ \<Rightarrow> a = r)"

text \<open>
  A test bench: a bus with no probe and no traffic yet, whose chip answers every read
  with the given bytes (and zeros after them), and the driver object that the
  constructor returns for type K and filter level 0.
\<close>

definition answers :: "byte list \<Rightarrow> transaction list \<Rightarrow> byte list \<Rightarrow> nat \<Rightarrow> byte" where
  "answers bs history sent k = (if k < length bs then bs ! k else 0)"

definition bench :: "byte list \<Rightarrow> I2C" where
  "bench bs = \<lparr>chip = answers bs, probes = [], traffic = []\<rparr>"

definition mcp_K0 :: MCP9600 where
  "mcp_K0 = \<lparr>buf = [0x05, 0x00, 0x00], i2c_device = 0x67, type = ''K''\<rparr>"

section \<open>Properties\<close>

subsection \<open>Bytes and the scratch buffer\<close>

lemma unat_byte_less: "unat (w::byte) < 256"
  using unsigned_less [of w, where 'a = nat] by simp

lemma uint_byte_range: "0 \<le> uint (w::byte) \<and> uint w \<le> 255"
  using uint_lt2p [of w] by simp

lemma sign_flag_bit7: "((w::byte) AND 0x80 \<noteq> 0) = bit w 7"
  using and_exp_eq_0_iff_not_bit [of w 7] by simp

lemma bit7_unat: "bit (w::byte) 7 = (128 \<le> unat w)"
proof -
  have "bit w 7 = bit (unat w) 7" by (simp add: bit_unsigned_iff)
  also have "\<dots> = odd (unat w div 128)" by (simp add: bit_iff_odd)
  also have "\<dots> = (128 \<le> unat w)"
  proof -
    have "unat w div 128 = (if 128 \<le> unat w then 1 else 0)"
      using unat_byte_less [of w] by auto
    then show ?thesis by simp
  qed
  finally show ?thesis .
qed

lemma setitem_byte: "i < length b \<Longrightarrow> setitem b i (uint (w::byte)) = Inr (b[i := w])"
  using uint_byte_range [of w] by (simp add: setitem_def)

lemma length3: "length xs = 3 \<Longrightarrow> \<exists>a b c. xs = [a, b, c]"
  by (cases xs; simp; cases "tl xs"; simp; cases "tl (tl xs)"; simp)

text \<open>
  What one call of the read primitive does on a 3-byte buffer: the write phase sends the
  first \<open>count\<close> bytes of the buffer, of which only the first was set for this call;
  the read phase always fills offsets 1 and 2.
\<close>

lemma read_register_eq:
  assumes "length (buf self) = 3"
  shows "read_register self i2c reg count =
     (let sent = take count [reg, buf self ! 1, buf self ! 2];
          hi = chip i2c (traffic i2c) sent 0;
          lo = chip i2c (traffic i2c) sent 1
      in (Inr [reg, hi, lo], self\<lparr>buf := [reg, hi, lo]\<rparr>,
          i2c\<lparr>traffic := traffic i2c @ [WriteThenRead sent [hi, lo]]\<rparr>))"
proof -
  from assms obtain a b c where abc: "buf self = [a, b, c]"
    using length3 by blast
  have upt: "[0..<2] = [0, Suc 0]" by (simp add: upt_rec)
  show ?thesis
    by (simp add: read_register_def abc setitem_byte write_then_readinto_def Let_def upt)
qed

lemma take2: "take 2 [a, b, c] = [a, b]"
  by (simp add: numeral_2_eq_2)

subsection \<open>The 16-bit pair and its sign flag\<close>

lemma pair_bounds:
  fixes hi lo :: byte
  defines "n \<equiv> unat hi * 256 + unat lo"
  shows "n \<le> 65535" and "(128 \<le> unat hi) = (32768 \<le> n)"
  using unat_byte_less [of hi] unat_byte_less [of lo] by (auto simp: n_def)

lemma bit15_pair: "bit (unat (hi::byte) * 256 + unat (lo::byte)) 15 = bit hi 7"
proof -
  define n where "n = unat hi * 256 + unat lo"
  have "n div 2 ^ 15 = (if 128 \<le> unat hi then 1 else 0)"
    using unat_byte_less [of hi] unat_byte_less [of lo] by (auto simp: n_def)
  then have "odd (n div 2 ^ 15) = (128 \<le> unat hi)" by simp
  then have "bit n 15 = (128 \<le> unat hi)" by (simp only: bit_iff_odd)
  then show ?thesis by (simp only: n_def bit7_unat)
qed

lemma shift_or_bytes:
  "push_bit 8 (uint (hi::byte)) OR uint (lo::byte) = int (unat hi * 256 + unat lo)"
proof -
  have "push_bit 8 (uint hi) + uint lo = push_bit 8 (uint hi) OR uint lo"
    by (rule disjunctive_add) (auto simp: bit_push_bit_iff bit_unsigned_iff dest: bit_imp_le_length)
  then show ?thesis by (simp add: push_bit_eq_mult)
qed

lemma decode_range:
  fixes hi lo :: byte
  defines "s \<equiv> real (unat hi * 256 + unat lo) * 0.0625"
  shows "0 \<le> s" and "s \<le> 4095.9375" and "bit hi 7 = (2048 \<le> s)"
proof -
  define n where "n = unat hi * 256 + unat lo"
  have s: "s = real n * 0.0625" by (simp only: s_def n_def)
  have n: "n \<le> 65535" and b: "(128 \<le> unat hi) = (32768 \<le> n)"
    using pair_bounds [of hi lo] by (simp_all only: n_def)
  show "0 \<le> s" by (simp add: s)
  from n have "real n \<le> 65535" by simp
  then show "s \<le> 4095.9375" by (simp add: s)
  have "(32768 \<le> n) = (32768 \<le> real n)" by simp
  also have "\<dots> = (2048 \<le> s)" by (simp add: s)
  finally show "bit hi 7 = (2048 \<le> s)" by (simp only: bit7_unat b)
qed

lemma decoded_bounds:
  fixes hi lo :: byte
  defines "s \<equiv> real (unat hi * 256 + unat lo) * 0.0625"
  defines "v \<equiv> (if 2048 \<le> s then s - 4096 else s)"
  shows "- 2048 \<le> v" and "v \<le> 2047.9375"
proof -
  define n where "n = unat hi * 256 + unat lo"
  have s: "s = real n * 0.0625" by (simp only: s_def n_def)
  have n: "n \<le> 65535" using pair_bounds(1) [of hi lo] by (simp only: n_def)
  have c: "(2048 \<le> s) = (32768 \<le> n)" by (simp add: s)
  show "- 2048 \<le> v"
  proof (cases "32768 \<le> n")
    case True
    then have "32768 \<le> real n" by simp
    then show ?thesis using True by (simp add: v_def c s)
  next
    case False
    then show ?thesis by (simp add: v_def c s)
  qed
  show "v \<le> 2047.9375"
  proof (cases "32768 \<le> n")
    case True
    from n have "real n \<le> 65535" by simp
    then show ?thesis using True by (simp add: v_def c s)
  next
    case False
    then have "n \<le> 32767" by simp
    then have "real n \<le> 32767" by (metis of_nat_le_iff of_nat_numeral)
    then show ?thesis using False by (simp add: v_def c s)
  qed
qed

subsection \<open>What each query computes\<close>

text \<open>
  On a 3-byte buffer every query is one call of the read primitive with count 2,
  followed by the decoding of offsets 1 and 2 of the buffer.
\<close>

lemma version_eq:
  assumes "length (buf self) = 3"
  shows "version self i2c =
     (let sent = [REGISTER_VERSION, buf self ! 1];
          hi = chip i2c (traffic i2c) sent 0;
          lo = chip i2c (traffic i2c) sent 1
      in (Inr (unat hi * 256 + unat lo),
          self\<lparr>buf := [REGISTER_VERSION, hi, lo]\<rparr>,
          i2c\<lparr>traffic := traffic i2c @ [WriteThenRead sent [hi, lo]]\<rparr>))"
  by (simp add: version_def read_register_eq [OF assms] take2 unpack_xH_def Let_def)

lemma ambient_temperature_eq:
  assumes "length (buf self) = 3"
  shows "ambient_temperature self i2c =
     (let sent = [REGISTER_COLD_JUNCTION, buf self ! 1];
          hi = chip i2c (traffic i2c) sent 0;
          lo = chip i2c (traffic i2c) sent 1;
          value = real (unat hi * 256 + unat lo) * 0.0625
      in (Inr (if bit hi 7 then value - 4096 else value),
          self\<lparr>buf := [REGISTER_COLD_JUNCTION, hi, lo]\<rparr>,
          i2c\<lparr>traffic := traffic i2c @ [WriteThenRead sent [hi, lo]]\<rparr>))"
  by (simp add: ambient_temperature_def read_register_eq [OF assms] take2 unpack_xH_def
      sign_flag_bit7 Let_def)

lemma temperature_eq:
  assumes "length (buf self) = 3"
  shows "temperature self i2c =
     (let sent = [REGISTER_HOT_JUNCTION, buf self ! 1];
          hi = chip i2c (traffic i2c) sent 0;
          lo = chip i2c (traffic i2c) sent 1;
          value = real (unat hi * 256 + unat lo) * 0.0625
      in (Inr (if bit hi 7 then value - 4096 else value),
          self\<lparr>buf := [REGISTER_HOT_JUNCTION, hi, lo]\<rparr>,
          i2c\<lparr>traffic := traffic i2c @ [WriteThenRead sent [hi, lo]]\<rparr>))"
  by (simp add: temperature_def read_register_eq [OF assms] take2 unpack_xH_def
      sign_flag_bit7 Let_def)

lemma delta_temperature_eq:
  assumes "length (buf self) = 3"
  shows "delta_temperature self i2c =
     (let sent = [REGISTER_DELTA_TEMP, buf self ! 1];
          hi = chip i2c (traffic i2c) sent 0;
          lo = chip i2c (traffic i2c) sent 1;
          value = real (unat hi * 256 + unat lo) * 0.0625
      in (Inr (if bit hi 7 then value - 4096 else value),
          self\<lparr>buf := [REGISTER_DELTA_TEMP, hi, lo]\<rparr>,
          i2c\<lparr>traffic := traffic i2c @ [WriteThenRead sent [hi, lo]]\<rparr>))"
  by (simp add: delta_temperature_def read_register_eq [OF assms] take2 unpack_xH_def
      sign_flag_bit7 Let_def)

subsection \<open>The constructor\<close>

lemma clamp_cases: "min 7 (max 0 (f::int)) \<in> {0, 1, 2, 3, 4, 5, 6, 7}"
  by (auto simp: min_def max_def)

lemma clamp_commute: "min 7 (max 0 (f::int)) = max 0 (min 7 f)"
  by (simp add: min_def max_def)

lemma types_set: "set types = {''K'', ''J'', ''T'', ''N'', ''S'', ''E'', ''B'', ''R''}"
  by (auto simp: types_def)

lemma index_types:
  "index types ''K'' = Inr 0" "index types ''J'' = Inr 1" "index types ''T'' = Inr 2"
  "index types ''N'' = Inr 3" "index types ''S'' = Inr 4" "index types ''E'' = Inr 5"
  "index types ''B'' = Inr 6" "index types ''R'' = Inr 7"
  by (simp_all add: types_def)

text \<open>
  The configuration value \<^verbatim>\<open>tcfilter | (ttype << 4)\<close> for a clamped filter level and a
  type index below 8 fits a byte, so the store into the buffer neither raises nor wraps,
  and its low nibble is the filter level.
\<close>

lemma cfg_byte:
  assumes "c \<in> {0, 1, 2, 3, 4, 5, 6, 7}" and "i \<in> {0, 1, 2, 3, 4, 5, 6, 7}"
  shows "0 \<le> c OR push_bit 4 (int i)" and "c OR push_bit 4 (int i) \<le> 255"
    and "uint (word_of_int (c OR push_bit 4 (int i)) :: byte) = c OR push_bit 4 (int i)"
    and "uint ((word_of_int (c OR push_bit 4 (int i)) :: byte) AND 0x0F) = c"
  using assms by auto

lemma index_range: "tctype \<in> set types \<Longrightarrow> \<exists>i \<in> {0, 1, 2, 3, 4, 5, 6, 7}. index types tctype = Inr i"
  by (auto simp: types_set index_types)

lemma setitem_cfg:
  assumes "c \<in> {0, 1, 2, 3, 4, 5, 6, 7}" and "i \<in> {0, 1, 2, 3, 4, 5, 6, 7}"
    and "k < length b"
  shows "setitem b k (c OR push_bit 4 (int i)) =
           Inr (b[k := word_of_int (c OR push_bit 4 (int i))])"
proof -
  define v where "v = c OR push_bit 4 (int i)"
  have "0 \<le> v" and "v \<le> 255"
    using cfg_byte(1,2) [OF assms(1,2)] by (simp_all only: v_def)
  then have "setitem b k v = Inr (b[k := word_of_int v])"
    using assms(3) by (simp add: setitem_def)
  then show ?thesis by (simp only: v_def)
qed

lemma init_eq:
  assumes "tctype \<in> set types" and "index types tctype = Inr i"
  shows "MCP9600_init i2c address tctype tcfilter =
     (let cfg = word_of_int (min 7 (max 0 tcfilter) OR push_bit 4 (int i)) in
      (Inr \<lparr>buf = [REGISTER_THERM_CFG, cfg, 0], i2c_device = address, type = tctype\<rparr>,
       i2c\<lparr>probes := probes i2c @ [address],
           traffic := traffic i2c @ [Write [REGISTER_THERM_CFG, cfg]]\<rparr>))"
proof -
  from assms index_range [OF assms(1)] have i: "i \<in> {0, 1, 2, 3, 4, 5, 6, 7}" by auto
  have r: "replicate 3 (0::byte) = [0, 0, 0]" by (simp add: numeral_3_eq_3)
  show ?thesis
    by (simp add: MCP9600_init_def I2CDevice_def assms setitem_byte r
        setitem_cfg [OF clamp_cases i] write_i2c_def Let_def take2)
qed

lemma init_invalid:
  assumes "tctype \<notin> set types"
  shows "MCP9600_init i2c address tctype tcfilter =
           (Inl (Exception (''invalid thermocouple type ('' @ tctype @ '')'')),
            i2c\<lparr>probes := probes i2c @ [address]\<rparr>)"
  using assms by (simp add: MCP9600_init_def I2CDevice_def)

text \<open>
  The 3-byte buffer is an invariant of the driver object: the constructor establishes it
  and the read primitive, hence every query, keeps it.
\<close>

lemma init_buf_length:
  assumes "MCP9600_init i2c address tctype tcfilter = (Inr self, i2c')"
  shows "length (buf self) = 3"
proof (cases "tctype \<in> set types")
  case True
  then obtain i where "index types tctype = Inr i"
    using index_range by blast
  from init_eq [OF True this, of i2c address tcfilter] assms show ?thesis
    by (auto simp: Let_def)
next
  case False
  from init_invalid [OF False, of i2c address tcfilter] assms show ?thesis by simp
qed

lemma read_register_buf_length:
  assumes "length (buf self) = 3"
  shows "length (buf (fst (snd (read_register self i2c reg count)))) = 3"
  by (simp add: read_register_eq [OF assms] Let_def)

subsection \<open>Sequences of queries\<close>

lemma get_eq:
  assumes "length (buf self) = 3"
  shows "\<exists>v self' t.
           get q self i2c = (Inr v, self', i2c\<lparr>traffic := traffic i2c @ [t]\<rparr>)
           \<and> length (buf self') = 3 \<and> combined t \<and> \<not> addresses REGISTER_THERM_CFG t"
proof (cases q)
  case Version
  then show ?thesis
    by (simp add: get_def version_eq [OF assms] Let_def REGISTER_THERM_CFG_def
        REGISTER_VERSION_def)
      (rule exI, rule conjI, rule refl, simp)
next
  case AmbientTemperature
  then show ?thesis
    by (simp add: get_def ambient_temperature_eq [OF assms] Let_def REGISTER_THERM_CFG_def
        REGISTER_COLD_JUNCTION_def)
      (rule exI, rule conjI, rule refl, simp)
next
  case Temperature
  then show ?thesis
    by (simp add: get_def temperature_eq [OF assms] Let_def REGISTER_THERM_CFG_def
        REGISTER_HOT_JUNCTION_def)
      (rule exI, rule conjI, rule refl, simp)
next
  case DeltaTemperature
  then show ?thesis
    by (simp add: get_def delta_temperature_eq [OF assms] Let_def REGISTER_THERM_CFG_def
        REGISTER_DELTA_TEMP_def)
      (rule exI, rule conjI, rule refl, simp)
qed

lemma gets_traffic:
  assumes "length (buf self) = 3"
  shows "\<exists>vs self' reads.
           gets qs self i2c = (Inr vs, self', i2c\<lparr>traffic := traffic i2c @ reads\<rparr>)
           \<and> length vs = length qs \<and> length reads = length qs
           \<and> list_all combined reads \<and> \<not> list_ex (addresses REGISTER_THERM_CFG) reads"
  using assms
proof (induction qs arbitrary: self i2c)
  case Nil
  then show ?case by simp
next
  case (Cons q qs)
  from get_eq [OF Cons.prems, of q i2c] obtain v self1 t where
    g: "get q self i2c = (Inr v, self1, i2c\<lparr>traffic := traffic i2c @ [t]\<rparr>)"
    and l: "length (buf self1) = 3" and t: "combined t" "\<not> addresses REGISTER_THERM_CFG t"
    by blast
  from Cons.IH [OF l, of "i2c\<lparr>traffic := traffic i2c @ [t]\<rparr>"] obtain vs self2 reads where
    r: "gets qs self1 (i2c\<lparr>traffic := traffic i2c @ [t]\<rparr>) =
          (Inr vs, self2, i2c\<lparr>traffic := traffic i2c @ [t] @ reads\<rparr>)"
    and p: "length vs = length qs" "length reads = length qs" "list_all combined reads"
      "\<not> list_ex (addresses REGISTER_THERM_CFG) reads"
    by auto
  have "gets (q # qs) self i2c = (Inr (v # vs), self2, i2c\<lparr>traffic := traffic i2c @ (t # reads)\<rparr>)"
    by (simp add: g r)
  moreover have "length (v # vs) = length (q # qs)" "length (t # reads) = length (q # qs)"
    "list_all combined (t # reads)" "\<not> list_ex (addresses REGISTER_THERM_CFG) (t # reads)"
    using p t by simp_all
  ultimately show ?case by blast
qed

lemma filter_none: "\<not> list_ex P xs \<Longrightarrow> filter P xs = []"
  by (induction xs) auto

lemmas bench_defs = bench_def answers_def mcp_K0_def

section \<open>The claims\<close>

subsection \<open>Temperature decoding\<close>

text \<open>
  Claim C1, as stated, puts the sign flag in bit 7 of the low byte \<open>lo\<close> and has the
  bytes 0xFF, 0x00 decode to 4080.0. The driver tests \<^verbatim>\<open>data[1] & 0x80\<close>, and
  \<^verbatim>\<open>data[1]\<close> is the first payload byte, the high one: the read returns the buffer
  with the register address at offset 0 and the payload at offsets 1 and 2. With payload
  0xFF, 0x00 bit 7 of \<open>lo\<close> is clear and \<open>((hi<<8)|lo) * 0.0625\<close> is 4080, yet
  \<open>temperature\<close> returns -16.
\<close>

theorem decode_sign_in_low_byte_counterexample:
  "fst (read_register mcp_K0 (bench [0xFF, 0x00]) REGISTER_HOT_JUNCTION 2) = Inr [0x00, 0xFF, 0x00]
   \<and> \<not> bit (0x00 :: byte) 7
   \<and> real_of_int (push_bit 8 0xFF OR 0x00) * 0.0625 = 4080
   \<and> fst (temperature mcp_K0 (bench [0xFF, 0x00])) = Inr (- 16)
   \<and> fst (temperature mcp_K0 (bench [0xFF, 0x00])) \<noteq> Inr 4080"
  by (simp add: temperature_eq read_register_eq bench_defs Let_def take2 REGISTER_HOT_JUNCTION_def)

text \<open>
  Claim C1, amended: let \<open>hi\<close>, \<open>lo\<close> be the two payload bytes that the chip returns to
  the read of a temperature register (hot junction 0x00, delta 0x01, cold junction
  0x02). The query returns \<open>((hi<<8)|lo) * 0.0625\<close> if bit 7 of \<open>hi\<close> is clear, and
  \<open>((hi<<8)|lo) * 0.0625 - 4096\<close> if bit 7 of \<open>hi\<close> is set. The bytes 0xFF, 0x00
  decode to -16.0; the bytes 0x00, 0x80, with bit 7 of \<open>lo\<close> set, decode to 8.0.
\<close>

theorem temperature_sign_in_high_byte:
  assumes "(q, reg) \<in> {(temperature, 0x00), (delta_temperature, 0x01),
                        (ambient_temperature, 0x02)}"
    and "length (buf self) = 3"
  shows "q self i2c =
           (let sent = [reg, buf self ! 1];
                hi = chip i2c (traffic i2c) sent 0;
                lo = chip i2c (traffic i2c) sent 1;
                raw = real_of_int (push_bit 8 (uint hi) OR uint lo)
            in (Inr (if bit hi 7 then raw * 0.0625 - 4096 else raw * 0.0625),
                self\<lparr>buf := [reg, hi, lo]\<rparr>,
                i2c\<lparr>traffic := traffic i2c @ [WriteThenRead sent [hi, lo]]\<rparr>))"
proof -
  have r: "real_of_int (push_bit 8 (uint hi) OR uint lo) = real (unat hi * 256 + unat lo)"
    for hi lo :: byte
    by (simp only: shift_or_bytes of_int_of_nat_eq)
  from assms(1) consider
      "q = temperature" "reg = REGISTER_HOT_JUNCTION"
    | "q = delta_temperature" "reg = REGISTER_DELTA_TEMP"
    | "q = ambient_temperature" "reg = REGISTER_COLD_JUNCTION"
    by (auto simp: REGISTER_HOT_JUNCTION_def REGISTER_DELTA_TEMP_def REGISTER_COLD_JUNCTION_def)
  then show ?thesis
  proof cases
    case 1
    then show ?thesis
      by (simp only: temperature_eq [OF assms(2)] Let_def r)
  next
    case 2
    then show ?thesis
      by (simp only: delta_temperature_eq [OF assms(2)] Let_def r)
  next
    case 3
    then show ?thesis
      by (simp only: ambient_temperature_eq [OF assms(2)] Let_def r)
  qed
qed

theorem temperature_sign_in_high_byte_witness:
  "(temperature, 0x00) \<in> {(temperature, 0x00), (delta_temperature, 0x01),
                        (ambient_temperature, (0x02::byte))}
   \<and> (delta_temperature, 0x01) \<in> {(temperature, 0x00), (delta_temperature, 0x01),
                        (ambient_temperature, (0x02::byte))}
   \<and> (ambient_temperature, 0x02) \<in> {(temperature, 0x00), (delta_temperature, 0x01),
                        (ambient_temperature, (0x02::byte))}
   \<and> length (buf mcp_K0) = 3
   \<and> temperature mcp_K0 (bench [0xFF, 0x00]) =
       (Inr (- 16), mcp_K0\<lparr>buf := [0x00, 0xFF, 0x00]\<rparr>,
        (bench [0xFF, 0x00])\<lparr>traffic := [WriteThenRead [0x00, 0x00] [0xFF, 0x00]]\<rparr>)
   \<and> delta_temperature mcp_K0 (bench [0x01, 0x90]) =
       (Inr (25), mcp_K0\<lparr>buf := [0x01, 0x01, 0x90]\<rparr>,
        (bench [0x01, 0x90])\<lparr>traffic := [WriteThenRead [0x01, 0x00] [0x01, 0x90]]\<rparr>)
   \<and> ambient_temperature mcp_K0 (bench [0x00, 0x80]) =
       (Inr (8), mcp_K0\<lparr>buf := [0x02, 0x00, 0x80]\<rparr>,
        (bench [0x00, 0x80])\<lparr>traffic := [WriteThenRead [0x02, 0x00] [0x00, 0x80]]\<rparr>)"
proof -
  have m0: "(temperature, 0x00) \<in> {(temperature, 0x00), (delta_temperature, 0x01),
                        (ambient_temperature, (0x02::byte))}"
    by simp
  have m1: "(delta_temperature, 0x01) \<in> {(temperature, 0x00), (delta_temperature, 0x01),
                        (ambient_temperature, (0x02::byte))}"
    by simp
  have m2: "(ambient_temperature, 0x02) \<in> {(temperature, 0x00), (delta_temperature, 0x01),
                        (ambient_temperature, (0x02::byte))}"
    by simp
  have l: "length (buf mcp_K0) = 3" by (simp add: mcp_K0_def)
  have r0: "temperature mcp_K0 (bench [0xFF, 0x00]) =
       (Inr (- 16), mcp_K0\<lparr>buf := [0x00, 0xFF, 0x00]\<rparr>,
        (bench [0xFF, 0x00])\<lparr>traffic := [WriteThenRead [0x00, 0x00] [0xFF, 0x00]]\<rparr>)"
    using temperature_sign_in_high_byte [OF m0 l, of "bench [0xFF, 0x00]"]
    by (simp add: bench_defs Let_def)
  have r1: "delta_temperature mcp_K0 (bench [0x01, 0x90]) =
       (Inr (25), mcp_K0\<lparr>buf := [0x01, 0x01, 0x90]\<rparr>,
        (bench [0x01, 0x90])\<lparr>traffic := [WriteThenRead [0x01, 0x00] [0x01, 0x90]]\<rparr>)"
    using temperature_sign_in_high_byte [OF m1 l, of "bench [0x01, 0x90]"]
    by (simp add: bench_defs Let_def)
  have r2: "ambient_temperature mcp_K0 (bench [0x00, 0x80]) =
       (Inr (8), mcp_K0\<lparr>buf := [0x02, 0x00, 0x80]\<rparr>,
        (bench [0x00, 0x80])\<lparr>traffic := [WriteThenRead [0x02, 0x00] [0x00, 0x80]]\<rparr>)"
    using temperature_sign_in_high_byte [OF m2 l, of "bench [0x00, 0x80]"]
    by (simp add: bench_defs Let_def)
  show ?thesis
    using m0 m1 m2 l r0 r1 r2 by blast
qed

text \<open>
  Claim C2. On a driver object with its 3-byte buffer, each of \<open>temperature\<close>,
  \<open>delta_temperature\<close> and \<open>ambient_temperature\<close> issues one combined transaction that
  addresses its register (0x00, 0x01, 0x02), and returns a value computed from the two
  bytes \<open>hi\<close>, \<open>lo\<close> that the chip answers: the unsigned big-endian number
  \<open>hi * 256 + lo\<close> times 0.0625, with 4096 subtracted after the scaling exactly when
  bit 15 of that number (bit 7 of the high byte) is set. With the bytes 0x80, 0x80 the
  value is 2056.0 - 4096 = -2040.0.
\<close>

theorem temperature_sign_flag_bit15:
  assumes "(q, reg) \<in> {(temperature, 0x00), (delta_temperature, 0x01),
                        (ambient_temperature, 0x02)}"
    and "length (buf self) = 3"
  shows "q self i2c =
           (let sent = [reg, buf self ! 1];
                hi = chip i2c (traffic i2c) sent 0;
                lo = chip i2c (traffic i2c) sent 1;
                raw = unat hi * 256 + unat lo
            in (Inr (if bit raw 15 then real raw * 0.0625 - 4096 else real raw * 0.0625),
                self\<lparr>buf := [reg, hi, lo]\<rparr>,
                i2c\<lparr>traffic := traffic i2c @ [WriteThenRead sent [hi, lo]]\<rparr>))"
proof -
  from assms(1) consider
      "q = temperature" "reg = REGISTER_HOT_JUNCTION"
    | "q = delta_temperature" "reg = REGISTER_DELTA_TEMP"
    | "q = ambient_temperature" "reg = REGISTER_COLD_JUNCTION"
    by (auto simp: REGISTER_HOT_JUNCTION_def REGISTER_DELTA_TEMP_def REGISTER_COLD_JUNCTION_def)
  then show ?thesis
  proof cases
    case 1
    then show ?thesis
      by (simp only: temperature_eq [OF assms(2)] Let_def bit15_pair)
  next
    case 2
    then show ?thesis
      by (simp only: delta_temperature_eq [OF assms(2)] Let_def bit15_pair)
  next
    case 3
    then show ?thesis
      by (simp only: ambient_temperature_eq [OF assms(2)] Let_def bit15_pair)
  qed
qed

theorem temperature_sign_flag_bit15_witness:
  "(temperature, 0x00) \<in> {(temperature, 0x00), (delta_temperature, 0x01),
                        (ambient_temperature, (0x02::byte))}
   \<and> (delta_temperature, 0x01) \<in> {(temperature, 0x00), (delta_temperature, 0x01),
                        (ambient_temperature, (0x02::byte))}
   \<and> (ambient_temperature, 0x02) \<in> {(temperature, 0x00), (delta_temperature, 0x01),
                        (ambient_temperature, (0x02::byte))}
   \<and> length (buf mcp_K0) = 3
   \<and> temperature mcp_K0 (bench [0x80, 0x80]) =
       (Inr (- 2040), mcp_K0\<lparr>buf := [0x00, 0x80, 0x80]\<rparr>,
        (bench [0x80, 0x80])\<lparr>traffic := [WriteThenRead [0x00, 0x00] [0x80, 0x80]]\<rparr>)
   \<and> delta_temperature mcp_K0 (bench [0x80, 0x80]) =
       (Inr (- 2040), mcp_K0\<lparr>buf := [0x01, 0x80, 0x80]\<rparr>,
        (bench [0x80, 0x80])\<lparr>traffic := [WriteThenRead [0x01, 0x00] [0x80, 0x80]]\<rparr>)
   \<and> ambient_temperature mcp_K0 (bench [0x01, 0x90]) =
       (Inr (25), mcp_K0\<lparr>buf := [0x02, 0x01, 0x90]\<rparr>,
        (bench [0x01, 0x90])\<lparr>traffic := [WriteThenRead [0x02, 0x00] [0x01, 0x90]]\<rparr>)"
proof -
  have m0: "(temperature, 0x00) \<in> {(temperature, 0x00), (delta_temperature, 0x01),
                        (ambient_temperature, (0x02::byte))}"
    by simp
  have m1: "(delta_temperature, 0x01) \<in> {(temperature, 0x00), (delta_temperature, 0x01),
                        (ambient_temperature, (0x02::byte))}"
    by simp
  have m2: "(ambient_temperature, 0x02) \<in> {(temperature, 0x00), (delta_temperature, 0x01),
                        (ambient_temperature, (0x02::byte))}"
    by simp
  have l: "length (buf mcp_K0) = 3" by (simp add: mcp_K0_def)
  have r0: "temperature mcp_K0 (bench [0x80, 0x80]) =
       (Inr (- 2040), mcp_K0\<lparr>buf := [0x00, 0x80, 0x80]\<rparr>,
        (bench [0x80, 0x80])\<lparr>traffic := [WriteThenRead [0x00, 0x00] [0x80, 0x80]]\<rparr>)"
    using temperature_sign_flag_bit15 [OF m0 l, of "bench [0x80, 0x80]"]
    by (simp add: bench_defs Let_def bit_0)
  have r1: "delta_temperature mcp_K0 (bench [0x80, 0x80]) =
       (Inr (- 2040), mcp_K0\<lparr>buf := [0x01, 0x80, 0x80]\<rparr>,
        (bench [0x80, 0x80])\<lparr>traffic := [WriteThenRead [0x01, 0x00] [0x80, 0x80]]\<rparr>)"
    using temperature_sign_flag_bit15 [OF m1 l, of "bench [0x80, 0x80]"]
    by (simp add: bench_defs Let_def bit_0)
  have r2: "ambient_temperature mcp_K0 (bench [0x01, 0x90]) =
       (Inr (25), mcp_K0\<lparr>buf := [0x02, 0x01, 0x90]\<rparr>,
        (bench [0x01, 0x90])\<lparr>traffic := [WriteThenRead [0x02, 0x00] [0x01, 0x90]]\<rparr>)"
    using temperature_sign_flag_bit15 [OF m2 l, of "bench [0x01, 0x90]"]
    by (simp add: bench_defs Let_def bit_0)
  show ?thesis
    using m0 m1 m2 l r0 r1 r2 by blast
qed

text \<open>
  Claim C10. Every value returned by \<open>temperature\<close>, \<open>ambient_temperature\<close> or
  \<open>delta_temperature\<close> lies in the closed interval from -2048.0 to 2047.9375: the
  scaled unsigned value \<open>s\<close> of the two bytes received is at most 4095.9375, and 4096
  is subtracted exactly when \<open>s\<close> is at least 2048. Both ends are reached, at the
  payloads 0x80, 0x00 and 0x7F, 0xFF.
\<close>

theorem temperature_range:
  assumes "q \<in> {temperature, delta_temperature, ambient_temperature}"
    and "length (buf self) = 3"
  shows "\<exists>sent hi lo.
           snd (snd (q self i2c)) = i2c\<lparr>traffic := traffic i2c @ [WriteThenRead sent [hi, lo]]\<rparr>
           \<and> (let s = real (unat hi * 256 + unat lo) * 0.0625;
                   v = (if 2048 \<le> s then s - 4096 else s)
               in fst (q self i2c) = Inr v \<and> s \<le> 4095.9375 \<and> - 2048 \<le> v \<and> v \<le> 2047.9375)"
proof -
  have d: "(let s = real (unat hi * 256 + unat lo) * 0.0625;
                v = (if 2048 \<le> s then s - 4096 else s)
            in Inr (if bit hi 7 then s - 4096 else s) = (Inr v :: error + real)
               \<and> s \<le> 4095.9375 \<and> - 2048 \<le> v \<and> v \<le> 2047.9375)" for hi lo :: byte
    using decode_range [of hi lo] decoded_bounds [of hi lo] by (simp only: Let_def)
  from assms(1) consider "q = temperature" | "q = delta_temperature" | "q = ambient_temperature"
    by auto
  then show ?thesis
  proof cases
    case 1
    show ?thesis
      unfolding 1 temperature_eq [OF assms(2)]
      using d by (simp only: Let_def fst_conv snd_conv) blast
  next
    case 2
    show ?thesis
      unfolding 2 delta_temperature_eq [OF assms(2)]
      using d by (simp only: Let_def fst_conv snd_conv) blast
  next
    case 3
    show ?thesis
      unfolding 3 ambient_temperature_eq [OF assms(2)]
      using d by (simp only: Let_def fst_conv snd_conv) blast
  qed
qed

theorem temperature_range_witness:
  "temperature \<in> {temperature, delta_temperature, ambient_temperature}
   \<and> length (buf mcp_K0) = 3
   \<and> (\<exists>sent hi lo.
           snd (snd (temperature mcp_K0 (bench [0x80, 0x00]))) =
             (bench [0x80, 0x00])\<lparr>traffic := traffic (bench [0x80, 0x00]) @ [WriteThenRead sent [hi, lo]]\<rparr>
           \<and> (let s = real (unat hi * 256 + unat lo) * 0.0625;
                   v = (if 2048 \<le> s then s - 4096 else s)
               in fst (temperature mcp_K0 (bench [0x80, 0x00])) = Inr v
                  \<and> s \<le> 4095.9375 \<and> - 2048 \<le> v \<and> v \<le> 2047.9375))
   \<and> fst (temperature mcp_K0 (bench [0x80, 0x00])) = Inr (- 2048)
   \<and> fst (temperature mcp_K0 (bench [0x7F, 0xFF])) = Inr 2047.9375"
proof -
  have m: "temperature \<in> {temperature, delta_temperature, ambient_temperature}" by simp
  have l: "length (buf mcp_K0) = 3" by (simp add: mcp_K0_def)
  have lo: "fst (temperature mcp_K0 (bench [0x80, 0x00])) = Inr (- 2048)"
    by (simp add: temperature_eq bench_defs Let_def)
  have hi: "fst (temperature mcp_K0 (bench [0x7F, 0xFF])) = Inr 2047.9375"
    by (simp add: temperature_eq bench_defs Let_def)
  show ?thesis
    using m l lo hi temperature_range [OF m l, of "bench [0x80, 0x00]"] by blast
qed

subsection \<open>The version register\<close>

text \<open>
  Claim C7. \<open>version\<close> issues one combined transaction that addresses register 0x20
  and reads two bytes, and returns the unsigned 16-bit number that has the first byte
  the chip answers as its high byte and the second as its low byte; the byte at offset
  0 of the buffer, the register address, is skipped. The payload 0x01, 0x20 yields 288,
  and so does the decoding of a buffer 0x00, 0x01, 0x20.
\<close>

theorem version_big_endian:
  assumes "length (buf self) = 3"
  shows "version self i2c =
           (let sent = [0x20, buf self ! 1];
                hi = chip i2c (traffic i2c) sent 0;
                lo = chip i2c (traffic i2c) sent 1
            in (Inr (unat hi * 256 + unat lo),
                self\<lparr>buf := [0x20, hi, lo]\<rparr>,
                i2c\<lparr>traffic := traffic i2c @ [WriteThenRead sent [hi, lo]]\<rparr>))"
  using version_eq [OF assms, of i2c] by (simp only: REGISTER_VERSION_def)

theorem version_big_endian_witness:
  "length (buf mcp_K0) = 3
   \<and> version mcp_K0 (bench [0x01, 0x20]) =
       (Inr 288, mcp_K0\<lparr>buf := [0x20, 0x01, 0x20]\<rparr>,
        (bench [0x01, 0x20])\<lparr>traffic := [WriteThenRead [0x20, 0x00] [0x01, 0x20]]\<rparr>)
   \<and> version mcp_K0 (bench [0x01, 0x90]) =
       (Inr 400, mcp_K0\<lparr>buf := [0x20, 0x01, 0x90]\<rparr>,
        (bench [0x01, 0x90])\<lparr>traffic := [WriteThenRead [0x20, 0x00] [0x01, 0x90]]\<rparr>)
   \<and> unpack_xH [0x00, 0x01, 0x20] = Inr 288"
proof -
  have l: "length (buf mcp_K0) = 3" by (simp add: mcp_K0_def)
  have a: "version mcp_K0 (bench [0x01, 0x20]) =
       (Inr 288, mcp_K0\<lparr>buf := [0x20, 0x01, 0x20]\<rparr>,
        (bench [0x01, 0x20])\<lparr>traffic := [WriteThenRead [0x20, 0x00] [0x01, 0x20]]\<rparr>)"
    using version_big_endian [OF l, of "bench [0x01, 0x20]"]
    by (simp add: bench_defs Let_def)
  have b: "version mcp_K0 (bench [0x01, 0x90]) =
       (Inr 400, mcp_K0\<lparr>buf := [0x20, 0x01, 0x90]\<rparr>,
        (bench [0x01, 0x90])\<lparr>traffic := [WriteThenRead [0x20, 0x00] [0x01, 0x90]]\<rparr>)"
    using version_big_endian [OF l, of "bench [0x01, 0x90]"]
    by (simp add: bench_defs Let_def)
  have u: "unpack_xH [0x00, 0x01, 0x20] = Inr 288" by (simp add: unpack_xH_def)
  show ?thesis using l a b u by blast
qed

subsection \<open>Construction\<close>

text \<open>
  Claim C3. For every thermocouple type of the ordered list K, J, T, N, S, E, B, R, with
  its index \<open>i\<close> in that list (K=0, J=1, T=2, N=3, S=4, E=5, B=6, R=7), and for every
  filter level, construction succeeds and, after the probe of the binding, issues one
  write of two bytes: the register
  address 0x05 and one configuration byte, whose value is the filter level clamped to
  0..7 OR-ed with \<open>i << 4\<close>. Type T with filter 3 yields the byte 0x23.
\<close>

theorem init_configuration_byte:
  assumes "(tctype, i) \<in> {(''K'', 0), (''J'', 1), (''T'', 2), (''N'', 3),
                           (''S'', 4), (''E'', 5), (''B'', 6), (''R'', 7)}"
  shows "\<exists>cfg. uint cfg = max 0 (min 7 tcfilter) OR push_bit 4 i
           \<and> MCP9600_init i2c address tctype tcfilter =
               (Inr \<lparr>buf = [REGISTER_THERM_CFG, cfg, 0], i2c_device = address, type = tctype\<rparr>,
                i2c\<lparr>probes := probes i2c @ [address],
                    traffic := traffic i2c @ [Write [REGISTER_THERM_CFG, cfg]]\<rparr>)
           \<and> REGISTER_THERM_CFG = 0x05"
proof -
  from assms have t: "tctype \<in> set types" by (auto simp: types_set)
  from assms obtain n where n: "index types tctype = Inr n" "i = int n"
    "n \<in> {0, 1, 2, 3, 4, 5, 6, 7}"
    by (auto simp: index_types)
  let ?cfg = "word_of_int (min 7 (max 0 tcfilter) OR push_bit 4 (int n)) :: byte"
  have "uint ?cfg = max 0 (min 7 tcfilter) OR push_bit 4 i"
    using cfg_byte(3) [OF clamp_cases n(3), of tcfilter] by (simp only: n(2) clamp_commute)
  moreover have "MCP9600_init i2c address tctype tcfilter =
               (Inr \<lparr>buf = [REGISTER_THERM_CFG, ?cfg, 0], i2c_device = address, type = tctype\<rparr>,
                i2c\<lparr>probes := probes i2c @ [address],
                    traffic := traffic i2c @ [Write [REGISTER_THERM_CFG, ?cfg]]\<rparr>)"
    using init_eq [OF t n(1)] by (simp only: Let_def)
  ultimately show ?thesis by (auto simp: REGISTER_THERM_CFG_def)
qed

theorem init_configuration_byte_witness:
  "(''T'', 2) \<in> {(''K'', 0), (''J'', 1), (''T'', 2), (''N'', 3),
                  (''S'', 4), (''E'', 5), (''B'', 6), (''R'', (7::int))}
   \<and> MCP9600_init (bench []) 0x67 ''T'' 3 =
        (Inr \<lparr>buf = [0x05, 0x23, 0], i2c_device = 0x67, type = ''T''\<rparr>,
         (bench [])\<lparr>probes := [0x67], traffic := [Write [0x05, 0x23]]\<rparr>)"
proof -
  have m: "(''T'', 2) \<in> {(''K'', 0), (''J'', 1), (''T'', 2), (''N'', 3),
                  (''S'', 4), (''E'', 5), (''B'', 6), (''R'', (7::int))}" by simp
  from init_configuration_byte [OF m, of 3 "bench []" "0x67"]
  obtain cfg :: byte where c: "uint cfg = max 0 (min 7 3) OR push_bit 4 2"
    and e: "MCP9600_init (bench []) 0x67 ''T'' 3 =
               (Inr \<lparr>buf = [REGISTER_THERM_CFG, cfg, 0], i2c_device = 0x67, type = ''T''\<rparr>,
                (bench [])\<lparr>probes := probes (bench []) @ [0x67],
                    traffic := traffic (bench []) @ [Write [REGISTER_THERM_CFG, cfg]]\<rparr>)"
    and r: "REGISTER_THERM_CFG = 0x05"
    by blast
  from c have "uint cfg = uint (0x23 :: byte)" by simp
  then have "cfg = 0x23" by (simp only: word_uint_eq_iff)
  with e r m show ?thesis by (simp add: bench_def)
qed

text \<open>
  Claim C5. Construction fails if and only if the requested thermocouple type is not one
  of K, J, T, N, S, E, B, R, and then with the driver's own exception (the spec's
  \<open>InvalidConfiguration\<close>), whose message names the type. This holds for every filter
  level, so no filter level makes construction fail.
\<close>

theorem init_fails_iff_invalid_type:
  "isl (fst (MCP9600_init i2c address tctype tcfilter)) =
     (tctype \<notin> {''K'', ''J'', ''T'', ''N'', ''S'', ''E'', ''B'', ''R''})
   \<and> (tctype \<notin> {''K'', ''J'', ''T'', ''N'', ''S'', ''E'', ''B'', ''R''} \<longrightarrow>
        fst (MCP9600_init i2c address tctype tcfilter) =
          Inl (Exception (''invalid thermocouple type ('' @ tctype @ '')'')))"
proof (cases "tctype \<in> set types")
  case True
  then obtain i where "index types tctype = Inr i"
    using index_range by blast
  from init_eq [OF True this] True show ?thesis
    by (simp add: Let_def types_set)
next
  case False
  from init_invalid [OF False] False show ?thesis
    by (simp add: types_set)
qed

theorem init_fails_iff_invalid_type_witness:
  "isl (fst (MCP9600_init (bench []) 0x67 ''X'' 3))
   \<and> ''X'' \<notin> {''K'', ''J'', ''T'', ''N'', ''S'', ''E'', ''B'', ''R''}
   \<and> fst (MCP9600_init (bench []) 0x67 ''X'' 3) = Inl (Exception ''invalid thermocouple type (X)'')
   \<and> \<not> isl (fst (MCP9600_init (bench []) 0x67 ''K'' 1000))
   \<and> \<not> isl (fst (MCP9600_init (bench []) 0x67 ''R'' (- 5)))"
  using init_fails_iff_invalid_type [of "bench []" "0x67" "''X''" 3]
    init_fails_iff_invalid_type [of "bench []" "0x67" "''K''" 1000]
    init_fails_iff_invalid_type [of "bench []" "0x67" "''R''" "- 5"]
  by simp

text \<open>
  Claim C6. For every integer filter level \<open>f\<close>, in particular for every one from -100
  to 100, construction with a valid thermocouple type returns the driver object, and the
  low nibble of the configuration byte it writes is \<open>max(0, min(7, f))\<close>.
\<close>

theorem init_clamps_filter:
  assumes "tctype \<in> {''K'', ''J'', ''T'', ''N'', ''S'', ''E'', ''B'', ''R''}"
  shows "\<exists>self cfg.
           MCP9600_init i2c address tctype tcfilter =
             (Inr self, i2c\<lparr>probes := probes i2c @ [address],
                           traffic := traffic i2c @ [Write [REGISTER_THERM_CFG, cfg]]\<rparr>)
           \<and> buf self = [REGISTER_THERM_CFG, cfg, 0]
           \<and> uint (cfg AND 0x0F) = max 0 (min 7 tcfilter)"
proof -
  from assms have t: "tctype \<in> set types" by (simp add: types_set)
  then obtain i where i: "i \<in> {0, 1, 2, 3, 4, 5, 6, 7}" "index types tctype = Inr i"
    using index_range by blast
  let ?cfg = "word_of_int (min 7 (max 0 tcfilter) OR push_bit 4 (int i)) :: byte"
  have "uint (?cfg AND 0x0F) = max 0 (min 7 tcfilter)"
    using cfg_byte(4) [OF clamp_cases i(1), of tcfilter] by (simp only: clamp_commute)
  moreover have "MCP9600_init i2c address tctype tcfilter =
      (Inr \<lparr>buf = [REGISTER_THERM_CFG, ?cfg, 0], i2c_device = address, type = tctype\<rparr>,
       i2c\<lparr>probes := probes i2c @ [address],
           traffic := traffic i2c @ [Write [REGISTER_THERM_CFG, ?cfg]]\<rparr>)"
    using init_eq [OF t i(2)] by (simp only: Let_def)
  ultimately show ?thesis by auto
qed

theorem init_clamps_filter_witness:
  "''K'' \<in> {''K'', ''J'', ''T'', ''N'', ''S'', ''E'', ''B'', ''R''}
   \<and> (\<exists>self cfg.
           MCP9600_init (bench []) 0x67 ''K'' (- 100) =
             (Inr self, (bench [])\<lparr>probes := probes (bench []) @ [0x67],
                           traffic := traffic (bench []) @ [Write [REGISTER_THERM_CFG, cfg]]\<rparr>)
           \<and> buf self = [REGISTER_THERM_CFG, cfg, 0]
           \<and> uint (cfg AND 0x0F) = max 0 (min 7 (- 100)))
   \<and> (\<exists>self cfg.
           MCP9600_init (bench []) 0x67 ''K'' 100 =
             (Inr self, (bench [])\<lparr>probes := probes (bench []) @ [0x67],
                           traffic := traffic (bench []) @ [Write [REGISTER_THERM_CFG, cfg]]\<rparr>)
           \<and> buf self = [REGISTER_THERM_CFG, cfg, 0]
           \<and> uint (cfg AND 0x0F) = max 0 (min 7 100))
   \<and> max 0 (min 7 (- 100)) = (0::int) \<and> max 0 (min 7 100) = (7::int)"
proof -
  have m: "''K'' \<in> {''K'', ''J'', ''T'', ''N'', ''S'', ''E'', ''B'', ''R''}" by simp
  have c: "max 0 (min 7 (- 100)) = (0::int) \<and> max 0 (min 7 100) = (7::int)" by simp
  show ?thesis
    using m c init_clamps_filter [OF m, of "bench []" "0x67" "- 100"]
      init_clamps_filter [OF m, of "bench []" "0x67" 100]
    by blast
qed




subsection \<open>Bus traffic\<close>

text \<open>
  Claim C8. Construction with a valid thermocouple type issues exactly one transaction,
  a plain write to the configuration register 0x05, and no read; binding the bus device
  has probed the address before, which addresses no register. Every version or
  temperature query then issues exactly one combined write-then-read transaction and no
  plain write, and none of these addresses register 0x05: after construction and any
  sequence of queries, the transactions added to the bus are the one configuration
  write followed by one combined transaction per query, so the configuration register
  is written exactly once, at construction. No query raises.
\<close>

theorem one_write_then_one_read_per_query:
  assumes "tctype \<in> {''K'', ''J'', ''T'', ''N'', ''S'', ''E'', ''B'', ''R''}"
  shows "\<exists>self cfg vs self' reads.
           MCP9600_init i2c address tctype tcfilter =
             (Inr self, i2c\<lparr>probes := probes i2c @ [address],
                           traffic := traffic i2c @ [Write [REGISTER_THERM_CFG, cfg]]\<rparr>)
           \<and> gets qs self (snd (MCP9600_init i2c address tctype tcfilter)) =
               (Inr vs, self',
                i2c\<lparr>probes := probes i2c @ [address],
                    traffic := traffic i2c @ [Write [REGISTER_THERM_CFG, cfg]] @ reads\<rparr>)
           \<and> length vs = length qs \<and> length reads = length qs
           \<and> list_all combined reads
           \<and> \<not> list_ex (addresses REGISTER_THERM_CFG) reads
           \<and> filter (addresses REGISTER_THERM_CFG) ([Write [REGISTER_THERM_CFG, cfg]] @ reads) =
               [Write [REGISTER_THERM_CFG, cfg]]"
proof -
  from assms have t: "tctype \<in> set types" by (simp add: types_set)
  then obtain i where i: "index types tctype = Inr i"
    using index_range by blast
  define cfg :: byte where "cfg = word_of_int (min 7 (max 0 tcfilter) OR push_bit 4 (int i))"
  define self where
    "self = \<lparr>buf = [REGISTER_THERM_CFG, cfg, 0], i2c_device = address, type = tctype\<rparr>"
  define bus where "bus = i2c\<lparr>probes := probes i2c @ [address],
                               traffic := traffic i2c @ [Write [REGISTER_THERM_CFG, cfg]]\<rparr>"
  have init: "MCP9600_init i2c address tctype tcfilter = (Inr self, bus)"
    using init_eq [OF t i] by (simp only: Let_def cfg_def self_def bus_def)
  have "length (buf self) = 3" by (simp add: self_def)
  from gets_traffic [OF this, of qs bus] obtain vs self' reads where
    g: "gets qs self bus = (Inr vs, self', bus\<lparr>traffic := traffic bus @ reads\<rparr>)"
    and p: "length vs = length qs" "length reads = length qs" "list_all combined reads"
      "\<not> list_ex (addresses REGISTER_THERM_CFG) reads"
    by blast
  have b: "bus\<lparr>traffic := traffic bus @ reads\<rparr> =
             i2c\<lparr>probes := probes i2c @ [address],
                 traffic := traffic i2c @ [Write [REGISTER_THERM_CFG, cfg]] @ reads\<rparr>"
    by (simp add: bus_def)
  have f: "filter (addresses REGISTER_THERM_CFG) ([Write [REGISTER_THERM_CFG, cfg]] @ reads) =
             [Write [REGISTER_THERM_CFG, cfg]]"
    using filter_none [OF p(4)] by simp
  from init g have "gets qs self (snd (MCP9600_init i2c address tctype tcfilter)) =
      (Inr vs, self', i2c\<lparr>probes := probes i2c @ [address],
                          traffic := traffic i2c @ [Write [REGISTER_THERM_CFG, cfg]] @ reads\<rparr>)"
    by (simp only: snd_conv b)
  with init p f show ?thesis unfolding bus_def by blast
qed

theorem one_write_then_one_read_per_query_witness:
  "''K'' \<in> {''K'', ''J'', ''T'', ''N'', ''S'', ''E'', ''B'', ''R''}
   \<and> (\<exists>self cfg vs self' reads.
           MCP9600_init (bench [0x01, 0x90]) 0x67 ''K'' 0 =
             (Inr self, (bench [0x01, 0x90])\<lparr>probes := probes (bench [0x01, 0x90]) @ [0x67],
                  traffic := traffic (bench [0x01, 0x90]) @ [Write [REGISTER_THERM_CFG, cfg]]\<rparr>)
           \<and> gets [Version, AmbientTemperature, Temperature, DeltaTemperature] self
                (snd (MCP9600_init (bench [0x01, 0x90]) 0x67 ''K'' 0)) =
               (Inr vs, self',
                (bench [0x01, 0x90])\<lparr>probes := probes (bench [0x01, 0x90]) @ [0x67],
                  traffic := traffic (bench [0x01, 0x90]) @ [Write [REGISTER_THERM_CFG, cfg]] @ reads\<rparr>)
           \<and> length vs = length [Version, AmbientTemperature, Temperature, DeltaTemperature]
           \<and> length reads = length [Version, AmbientTemperature, Temperature, DeltaTemperature]
           \<and> list_all combined reads
           \<and> \<not> list_ex (addresses REGISTER_THERM_CFG) reads
           \<and> filter (addresses REGISTER_THERM_CFG) ([Write [REGISTER_THERM_CFG, cfg]] @ reads) =
               [Write [REGISTER_THERM_CFG, cfg]])
   \<and> MCP9600_init (bench [0x01, 0x90]) 0x67 ''K'' 0 =
        (Inr mcp_K0, (bench [0x01, 0x90])\<lparr>probes := [0x67], traffic := [Write [0x05, 0x00]]\<rparr>)
   \<and> fst (gets [Version, AmbientTemperature, Temperature, DeltaTemperature] mcp_K0
        ((bench [0x01, 0x90])\<lparr>probes := [0x67], traffic := [Write [0x05, 0x00]]\<rparr>)) =
        Inr [IntValue 400, FloatValue 25, FloatValue 25, FloatValue 25]
   \<and> traffic (snd (snd (gets [Version, AmbientTemperature, Temperature, DeltaTemperature] mcp_K0
        ((bench [0x01, 0x90])\<lparr>probes := [0x67], traffic := [Write [0x05, 0x00]]\<rparr>)))) =
        [Write [0x05, 0x00],
         WriteThenRead [0x20, 0x00] [0x01, 0x90],
         WriteThenRead [0x02, 0x01] [0x01, 0x90],
         WriteThenRead [0x00, 0x01] [0x01, 0x90],
         WriteThenRead [0x01, 0x01] [0x01, 0x90]]"
proof -
  have m: "''K'' \<in> {''K'', ''J'', ''T'', ''N'', ''S'', ''E'', ''B'', ''R''}" by simp
  have i: "MCP9600_init (bench [0x01, 0x90]) 0x67 ''K'' 0 =
        (Inr mcp_K0, (bench [0x01, 0x90])\<lparr>probes := [0x67], traffic := [Write [0x05, 0x00]]\<rparr>)"
    by (simp add: init_eq [OF _ index_types(1)] types_set bench_defs Let_def REGISTER_THERM_CFG_def)
  have g: "gets [Version, AmbientTemperature, Temperature, DeltaTemperature] mcp_K0
        ((bench [0x01, 0x90])\<lparr>probes := [0x67], traffic := [Write [0x05, 0x00]]\<rparr>) =
        (Inr [IntValue 400, FloatValue 25, FloatValue 25, FloatValue 25],
         mcp_K0\<lparr>buf := [0x01, 0x01, 0x90]\<rparr>,
         (bench [0x01, 0x90])\<lparr>probes := [0x67], traffic := [Write [0x05, 0x00],
         WriteThenRead [0x20, 0x00] [0x01, 0x90],
         WriteThenRead [0x02, 0x01] [0x01, 0x90],
         WriteThenRead [0x00, 0x01] [0x01, 0x90],
         WriteThenRead [0x01, 0x01] [0x01, 0x90]]\<rparr>)"
    by (simp add: get_def version_eq ambient_temperature_eq temperature_eq delta_temperature_eq
        bench_defs Let_def REGISTER_VERSION_def REGISTER_COLD_JUNCTION_def
        REGISTER_HOT_JUNCTION_def REGISTER_DELTA_TEMP_def)
  have g1: "fst (gets [Version, AmbientTemperature, Temperature, DeltaTemperature] mcp_K0
        ((bench [0x01, 0x90])\<lparr>probes := [0x67], traffic := [Write [0x05, 0x00]]\<rparr>)) =
        Inr [IntValue 400, FloatValue 25, FloatValue 25, FloatValue 25]"
    by (simp only: g fst_conv)
  have g2: "traffic (snd (snd (gets [Version, AmbientTemperature, Temperature, DeltaTemperature] mcp_K0
        ((bench [0x01, 0x90])\<lparr>probes := [0x67], traffic := [Write [0x05, 0x00]]\<rparr>)))) =
        [Write [0x05, 0x00],
         WriteThenRead [0x20, 0x00] [0x01, 0x90],
         WriteThenRead [0x02, 0x01] [0x01, 0x90],
         WriteThenRead [0x00, 0x01] [0x01, 0x90],
         WriteThenRead [0x01, 0x01] [0x01, 0x90]]"
    unfolding g by simp
  show ?thesis
    using m i g1 g2
      one_write_then_one_read_per_query [OF m, of "bench [0x01, 0x90]" "0x67" 0
        "[Version, AmbientTemperature, Temperature, DeltaTemperature]"]
    by blast
qed

text \<open>
  Claim C4 says that the write phase of the read primitive sends exactly one byte, the
  register address, and that the read phase reads \<open>count\<close> bytes. The primitive does
  issue one combined transaction, with the read bytes placed from offset 1 and the
  register address kept at offset 0. But it passes \<open>count\<close> as \<^verbatim>\<open>out_end\<close>: the write
  phase sends the first \<open>count\<close> bytes of the buffer (at most 3), that is the register
  address followed, for \<open>count = 2\<close>, by whatever byte offset 1 held before the call;
  and the read phase fills offsets 1 and 2, two bytes, whatever \<open>count\<close> is. After
  construction with type R and filter 7 the buffer is 0x05, 0x77, 0x00, and the read of
  the version register sends 0x20, 0x77; with \<open>count = 1\<close> one byte is sent and two are
  read.
\<close>

theorem read_register_sends_count_bytes:
  assumes "length (buf self) = 3"
  shows "\<exists>sent hi lo.
           read_register self i2c reg count =
             (Inr [reg, hi, lo], self\<lparr>buf := [reg, hi, lo]\<rparr>,
              i2c\<lparr>traffic := traffic i2c @ [WriteThenRead sent [hi, lo]]\<rparr>)
           \<and> sent = take count [reg, buf self ! 1, buf self ! 2]
           \<and> length sent = min count 3"
  by (simp add: read_register_eq [OF assms] Let_def)

theorem read_register_sends_count_bytes_witness:
  "length (buf \<lparr>buf = [0x05, 0x77, 0x00], i2c_device = 0x67, type = ''R''\<rparr>) = 3
   \<and> read_register \<lparr>buf = [0x05, 0x77, 0x00], i2c_device = 0x67, type = ''R''\<rparr>
        (bench [0x01, 0x20]) REGISTER_VERSION 2 =
        (Inr [0x20, 0x01, 0x20],
         \<lparr>buf = [0x20, 0x01, 0x20], i2c_device = 0x67, type = ''R''\<rparr>,
         (bench [0x01, 0x20])\<lparr>traffic := [WriteThenRead [0x20, 0x77] [0x01, 0x20]]\<rparr>)
   \<and> traffic (snd (snd (read_register \<lparr>buf = [0x05, 0x77, 0x00], i2c_device = 0x67, type = ''R''\<rparr>
        (bench [0x01, 0x20]) REGISTER_VERSION 1))) = [WriteThenRead [0x20] [0x01, 0x20]]"
  using read_register_sends_count_bytes
    [of "\<lparr>buf = [0x05, 0x77, 0x00], i2c_device = 0x67, type = ''R''\<rparr>" "bench [0x01, 0x20]"
      REGISTER_VERSION 2]
  by (simp add: read_register_eq bench_defs Let_def REGISTER_VERSION_def take2)

end
